theory Spec2Isabelle
  imports Main "HOL-Library.Word"
begin

section \<open>JavaScript values and string operations used by the sources\<close>

text \<open>
  The sources are TypeScript. Strings are modelled as \<open>string\<close>, a value that may be
  \<open>null\<close> or \<open>undefined\<close> as an \<open>option\<close>, a thrown \<open>Error\<close> (or a rejected
  promise) as the left summand of a sum type, and the fields of a decoded token payload,
  which arrive as untyped JSON, as \<open>jsval\<close>.
\<close>

datatype jsval = Undefined | Null | Bool bool | Num int | Str string | Obj

text \<open>JavaScript truthiness (\<open>!v\<close> is its negation) and \<open>typeof v === 'string'\<close>.\<close>

fun truthy :: "jsval \<Rightarrow> bool" where
  "truthy Undefined = False"
| "truthy Null = False"
| "truthy (Bool b) = b"
| "truthy (Num n) = (n \<noteq> 0)"
| "truthy (Str s) = (s \<noteq> [])"
| "truthy Obj = True"

fun isString :: "jsval \<Rightarrow> bool" where
  "isString (Str s) = True"
| "isString v = False"

text \<open>Truthiness of a \<open>string | null | undefined\<close>: absent and the empty string are falsy.\<close>

fun truthyStr :: "string option \<Rightarrow> bool" where
  "truthyStr None = False"
| "truthyStr (Some s) = (s \<noteq> [])"

datatype js_error = Error string

text \<open>\<open>s.startsWith(p)\<close>, \<open>s.includes(c)\<close> for a one-character needle, \<open>arr[i]\<close>
  (\<open>undefined\<close> out of range) and \<open>s.split(c)\<close> for a one-character separator.\<close>

definition startsWith :: "string \<Rightarrow> string \<Rightarrow> bool" where
  "startsWith s p \<longleftrightarrow> take (length p) s = p"

definition includesChar :: "string \<Rightarrow> char \<Rightarrow> bool" where
  "includesChar s c \<longleftrightarrow> c \<in> set s"

definition at :: "'a list \<Rightarrow> nat \<Rightarrow> 'a option" where
  "at xs i = (if i < length xs then Some (xs ! i) else None)"

fun split :: "char \<Rightarrow> string \<Rightarrow> string list" where
  "split c [] = [[]]"
| "split c (x # xs) =
     (if x = c then [] # split c xs
      else (case split c xs of [] \<Rightarrow> [[x]] | y # ys \<Rightarrow> (x # y) # ys))"

section \<open>Token Service: \<open>verifyToken\<close>\<close>

text \<open>The claims of a token, as \<open>DecodedToken\<close> declares them. The three identity fields
  are checked at run time by the jose variants of \<open>verifyToken\<close>, so they are \<open>jsval\<close>.\<close>

record jwt_payload =
  userId :: jsval
  username :: jsval
  role :: jsval
  iat :: nat
  exp :: nat

text \<open>
  Modelled from the spec: the JWT library (\<open>jsonwebtoken\<close>'s \<open>jwt.verify\<close>, \<open>jose\<close>'s
  \<open>jwtVerify\<close>) is an external dependency and absent from the sources. The spec says
  that a token is a signed, self-describing value carrying the claims, signed with a
  symmetric secret by an HMAC, and that verification fails when the signature does not
  match, the token is structurally malformed, or \<open>now >= expiresAt\<close>. The library is
  given by its parser \<open>decode\<close> (\<open>None\<close> for a string that is no token), its keyed
  signature function \<open>hmac\<close> and the clock \<open>now\<close>; the error codes are jose's.
\<close>

record jws =
  jws_payload :: jwt_payload
  jws_signature :: string

record jwt_lib =
  decode :: "string \<Rightarrow> jws option"
  hmac :: "string \<Rightarrow> jwt_payload \<Rightarrow> string"
  now :: nat

datatype jose_code =
  ERR_JWT_EXPIRED | ERR_JWS_SIGNATURE_VERIFICATION_FAILED | ERR_JWS_INVALID

definition jwtVerify :: "jwt_lib \<Rightarrow> string \<Rightarrow> string \<Rightarrow> jose_code + jwt_payload" where
  "jwtVerify L token key =
     (case decode L token of
        None \<Rightarrow> Inl ERR_JWS_INVALID
      | Some j \<Rightarrow>
          if jws_signature j \<noteq> hmac L key (jws_payload j)
          then Inl ERR_JWS_SIGNATURE_VERIFICATION_FAILED
          else if exp (jws_payload j) \<le> now L then Inl ERR_JWT_EXPIRED
          else Inr (jws_payload j))"

text \<open>The spec's invariant, in its words: a token is valid if and only if its signature
  verifies and the current time is before \<open>expiresAt\<close>.\<close>

definition tokenValid :: "jwt_lib \<Rightarrow> string \<Rightarrow> string \<Rightarrow> bool" where
  "tokenValid L key t =
     (case decode L t of
        None \<Rightarrow> False
      | Some j \<Rightarrow> jws_signature j = hmac L key (jws_payload j) \<and> now L < exp (jws_payload j))"

text \<open>\<open>const JWT_SECRET = process.env.JWT_SECRET || 'fallback-secret-key-replace-in-production'\<close>:
  the argument is the environment variable, \<open>None\<close> when it is not set.\<close>

definition fallback_secret :: string where
  "fallback_secret = ''fallback-secret-key-replace-in-production''"

definition JWT_SECRET :: "string option \<Rightarrow> string" where
  "JWT_SECRET env = (case env of None \<Rightarrow> fallback_secret
                     | Some s \<Rightarrow> if s \<noteq> [] then s else fallback_secret)"

text \<open>\<open>src/lib/authUtils.ts\<close> (jsonwebtoken): any library error is replaced by one
  generic error, a verified payload is returned as it is.\<close>

definition verifyToken :: "jwt_lib \<Rightarrow> string option \<Rightarrow> string \<Rightarrow> js_error + jwt_payload" where
  "verifyToken L env token =
     (case jwtVerify L token (JWT_SECRET env) of
        Inl err \<Rightarrow> Inl (Error ''Invalid or expired token'')
      | Inr decoded \<Rightarrow> Inr decoded)"

text \<open>The jose variant \<open>src/unnamed/part_004\<close>: after the library's check the three
  identity fields must be truthy; the \<open>Error\<close> thrown for that is caught by the same
  \<open>catch\<close>, which throws the generic error whatever it caught.\<close>

definition verifyToken_part004 :: "jwt_lib \<Rightarrow> string option \<Rightarrow> string \<Rightarrow> js_error + jwt_payload" where
  "verifyToken_part004 L env token =
     (case jwtVerify L token (JWT_SECRET env) of
        Inl err \<Rightarrow> Inl (Error ''Invalid or expired token'')
      | Inr payload \<Rightarrow>
          if \<not> truthy (userId payload) \<or> \<not> truthy (username payload) \<or> \<not> truthy (role payload)
          then Inl (Error ''Invalid or expired token'')
          else Inr payload)"

text \<open>The jose variant \<open>src/unnamed/part_003\<close>: the identity fields must be strings; the
  \<open>catch\<close> maps the library's error code to a message of its own, and anything else
  (the payload-structure \<open>Error\<close>, which has no code) to \<open>'Invalid token'\<close>.\<close>

definition catch_part003 :: "jose_code option \<Rightarrow> js_error" where
  "catch_part003 code =
     (if code = Some ERR_JWT_EXPIRED then Error ''Token expired''
      else if code = Some ERR_JWS_SIGNATURE_VERIFICATION_FAILED then Error ''Invalid token signature''
      else if code = Some ERR_JWS_INVALID then Error ''Invalid token format''
      else Error ''Invalid token'')"

definition verifyToken_part003 :: "jwt_lib \<Rightarrow> string option \<Rightarrow> string \<Rightarrow> js_error + jwt_payload" where
  "verifyToken_part003 L env token =
     (case jwtVerify L token (JWT_SECRET env) of
        Inl err \<Rightarrow> Inl (catch_part003 (Some err))
      | Inr payload \<Rightarrow>
          if \<not> isString (userId payload) \<or> \<not> isString (username payload) \<or> \<not> isString (role payload)
          then Inl (catch_part003 None)
          else Inr payload)"

section \<open>Request Gate: \<open>middleware\<close>\<close>

definition protectedApiPaths :: "string list" where
  "protectedApiPaths = [''/api/products'', ''/api/orders'']"

definition publicPaths :: "string list" where
  "publicPaths = [''/login'', ''/api/auth/login'']"

text \<open>What the middleware returns: \<open>NextResponse.next()\<close>, \<open>NextResponse.next\<close> with the
  decoded user in the request header \<open>X-User-Info\<close>, or a JSON response with a status.\<close>

datatype response = Next | NextWithUser jwt_payload | Json nat string

text \<open>\<open>middleware(req)\<close>, with \<open>req.nextUrl.pathname\<close> and
  \<open>req.headers.get('Authorization')\<close> as arguments and the imported \<open>verifyToken\<close> as
  \<open>verify\<close>. \<open>!token\<close> holds for \<open>undefined\<close> and for the empty string. An object is
  truthy, so \<open>!decoded\<close> is false for a returned payload. Both the \<open>Error\<close> thrown
  for a role other than \<open>'admin'\<close> and a rejection by \<open>verifyToken\<close> end in the one
  \<open>catch\<close>, which answers 401.\<close>

definition isProtectedApi :: "string \<Rightarrow> bool" where
  "isProtectedApi pathname = list_ex (\<lambda>path. startsWith pathname path) protectedApiPaths"

definition middleware ::
  "(string \<Rightarrow> js_error + jwt_payload) \<Rightarrow> string \<Rightarrow> string option \<Rightarrow> response" where
  "middleware verify pathname authHeader =
     (if startsWith pathname ''/_next/'' \<or> includesChar pathname CHR ''.''
         \<or> List.member publicPaths pathname
      then Next
      else if isProtectedApi pathname then
        (let token = (case authHeader of None \<Rightarrow> None
                      | Some h \<Rightarrow> at (split CHR '' '' h) 1)
         in case token of
              None \<Rightarrow> Json 401 ''Authentication required''
            | Some t \<Rightarrow>
                if t = [] then Json 401 ''Authentication required''
                else (case verify t of
                        Inl error \<Rightarrow> Json 401 ''Invalid or expired token''
                      | Inr decoded \<Rightarrow>
                          if role decoded \<noteq> Str ''admin''
                          then Json 401 ''Invalid or expired token''
                          else NextWithUser decoded))
      else Next)"

text \<open>The login route (\<open>src/unnamed/part_006\<close>, second file) signs the token it issues with
  the same constant: \<open>new SignJWT(tokenPayload)...setIssuedAt().setExpirationTime('1h').sign(secretKey)\<close>.
  The result is given in decoded form.\<close>

definition JWT_EXPIRATION :: nat where
  "JWT_EXPIRATION = 3600"

definition signToken :: "jwt_lib \<Rightarrow> string option \<Rightarrow> jsval \<Rightarrow> jsval \<Rightarrow> jsval \<Rightarrow> jws" where
  "signToken L env uid uname urole =
     (let tokenPayload = \<lparr>userId = uid, username = uname, role = urole,
                           iat = now L, exp = now L + JWT_EXPIRATION\<rparr>
      in \<lparr>jws_payload = tokenPayload,
          jws_signature = hmac L (JWT_SECRET env) tokenPayload\<rparr>)"

section \<open>Credential Hasher: \<open>pbkdf2Hash\<close> and \<open>pbkdf2Verify\<close>\<close>

type_synonym byte = "8 word"

definition HASH_ALGORITHM :: string where
  "HASH_ALGORITHM = ''sha512''"

definition KEY_LENGTH :: nat where
  "KEY_LENGTH = 64"

definition ITERATIONS :: nat where
  "ITERATIONS = 100000"

definition SALT_BYTES :: nat where
  "SALT_BYTES = 16"

text \<open>\<open>buf.toString('hex')\<close>: two lower-case hexadecimal digits for each byte.\<close>

definition hexDigit :: "nat \<Rightarrow> char" where
  "hexDigit n = ''0123456789abcdef'' ! n"

definition toHex :: "byte list \<Rightarrow> string" where
  "toHex bs = concat (map (\<lambda>b. [hexDigit (unat b div 16), hexDigit (unat b mod 16)]) bs)"

text \<open>\<open>Buffer.from(s, 'hex')\<close>: Node decodes two digits at a time, in either case, and
  stops at the first pair that is not two hexadecimal digits (a single trailing character
  is dropped); it never throws.\<close>

definition hexValue :: "char \<Rightarrow> nat option" where
  "hexValue c =
     (let n = (of_char c :: nat)
      in if 48 \<le> n \<and> n \<le> 57 then Some (n - 48)
         else if 97 \<le> n \<and> n \<le> 102 then Some (n - 87)
         else if 65 \<le> n \<and> n \<le> 70 then Some (n - 55)
         else None)"

fun fromHex :: "string \<Rightarrow> byte list" where
  "fromHex (a # b # rest) =
     (case hexValue a of
        None \<Rightarrow> []
      | Some h \<Rightarrow> (case hexValue b of
                     None \<Rightarrow> []
                   | Some l \<Rightarrow> of_nat (16 * h + l) # fromHex rest))"
| "fromHex s = []"

text \<open>\<open>crypto.timingSafeEqual(a, b)\<close> throws a \<open>RangeError\<close> when the byte lengths
  differ, and compares the bytes otherwise.\<close>

definition timingSafeEqual :: "byte list \<Rightarrow> byte list \<Rightarrow> js_error + bool" where
  "timingSafeEqual a b =
     (if length a \<noteq> length b
      then Inl (Error ''Input buffers must have the same byte length'')
      else Inr (a = b))"

text \<open>
  The key derivation \<open>crypto.pbkdf2(password, salt, iterations, keylen, digest, callback)\<close>
  and the entropy source \<open>crypto.randomBytes(n)\<close> belong to Node and are parameters: the
  derivation gives the callback's \<open>err\<close> (\<open>Inl\<close>) or \<open>derivedKey\<close> (\<open>Inr\<close>). The salt
  handed to the derivation is the hexadecimal string itself, in both functions.
\<close>

type_synonym pbkdf2_fn = "string \<Rightarrow> string \<Rightarrow> nat \<Rightarrow> nat \<Rightarrow> string \<Rightarrow> js_error + byte list"

definition pbkdf2Hash :: "pbkdf2_fn \<Rightarrow> (nat \<Rightarrow> byte list) \<Rightarrow> string \<Rightarrow> js_error + string" where
  "pbkdf2Hash pbkdf2 randomBytes password =
     (let salt = toHex (randomBytes SALT_BYTES)
      in case pbkdf2 password salt ITERATIONS KEY_LENGTH HASH_ALGORITHM of
           Inl err \<Rightarrow> Inl err
         | Inr derivedKey \<Rightarrow> Inr (salt @ '':'' @ toHex derivedKey))"

text \<open>\<open>const [salt, originalKeyHex] = storedHash.split(':')\<close> takes the first two parts;
  a part that is \<open>undefined\<close> or empty is falsy. An error of the derivation rejects the
  promise; the \<open>RangeError\<close> of the comparison is caught and gives \<open>false\<close>.\<close>

definition pbkdf2Verify :: "pbkdf2_fn \<Rightarrow> string \<Rightarrow> string \<Rightarrow> js_error + bool" where
  "pbkdf2Verify pbkdf2 storedHash providedPassword =
     (let parts = split CHR '':'' storedHash;
          salt = at parts 0;
          originalKeyHex = at parts 1
      in if \<not> truthyStr salt \<or> \<not> truthyStr originalKeyHex then Inr False
         else (case pbkdf2 providedPassword (the salt) ITERATIONS KEY_LENGTH HASH_ALGORITHM of
                 Inl err \<Rightarrow> Inl err
               | Inr derivedKey \<Rightarrow>
                   (let derivedKeyHex = toHex derivedKey
                    in case timingSafeEqual (fromHex derivedKeyHex) (fromHex (the originalKeyHex)) of
                         Inl timingError \<Rightarrow> Inr False
                       | Inr isEqual \<Rightarrow> Inr isEqual)))"

text \<open>Whether every character of a string is a hexadecimal digit: what the spec means by
  a hex-encoded segment of the stored hash.\<close>

definition isHex :: "string \<Rightarrow> bool" where
  "isHex s = list_all (\<lambda>c. hexValue c \<noteq> None) s"

section \<open>Session Controller: \<open>AuthProvider\<close>\<close>

text \<open>
  The state of the provider: the React state \<open>token\<close> and \<open>isLoading\<close>, the current
  route \<open>pathname\<close>, and the slot \<open>adminToken\<close> of \<open>localStorage\<close>. Two logs record the
  effects a claim counts: the writes to the slot and the \<open>router.push\<close> calls.
  \<open>isLoading = true\<close> is the phase the spec calls Uninitialized.
\<close>

datatype storage_write = SetItem string | RemoveItem

record session =
  token :: "string option"
  isLoading :: bool
  pathname :: string
  localStorage :: "string option"
  writes :: "storage_write list"
  pushes :: "string list"

definition initial :: "string option \<Rightarrow> string \<Rightarrow> session" where
  "initial stored route =
     \<lparr>token = None, isLoading = True, pathname = route, localStorage = stored,
      writes = [], pushes = []\<rparr>"

text \<open>The first effect (dependencies \<open>[]\<close>): the startup read of the persisted token.\<close>

definition startupRead :: "session \<Rightarrow> session" where
  "startupRead s =
     (let storedToken = localStorage s
      in (if truthyStr storedToken then s\<lparr>token := storedToken\<rparr> else s\<lparr>token := None\<rparr>)
           \<lparr>isLoading := False\<rparr>)"

text \<open>The second effect: the navigation policy, inside \<open>if (!isLoading)\<close>.\<close>

definition navEffect :: "session \<Rightarrow> session" where
  "navEffect s =
     (if \<not> isLoading s then
        (if \<not> truthyStr (token s) \<and> \<not> List.member [''/login''] (pathname s)
         then s\<lparr>pushes := pushes s @ [''/login'']\<rparr>
         else if truthyStr (token s) \<and> pathname s = ''/login''
         then s\<lparr>pushes := pushes s @ [''/dashboard'']\<rparr>
         else s)
      else s)"

text \<open>\<open>setToken(newToken)\<close>. React applies the state updates of one call together, so of
  \<open>setIsLoading(true)\<close> and the later \<open>setIsLoading(false)\<close> the last one stands;
  \<open>pathname\<close> is the value of the render the call was made in.\<close>

definition setToken :: "string option \<Rightarrow> session \<Rightarrow> session" where
  "setToken newToken s =
     (let s1 = (case newToken of
                  None \<Rightarrow> s\<lparr>localStorage := None, writes := writes s @ [RemoveItem]\<rparr>
                | Some t \<Rightarrow>
                    if t \<noteq> [] then s\<lparr>localStorage := Some t, writes := writes s @ [SetItem t]\<rparr>
                    else s\<lparr>localStorage := None, writes := writes s @ [RemoveItem]\<rparr>);
          s2 = s1\<lparr>token := newToken, isLoading := False\<rparr>
      in if \<not> truthyStr newToken \<and> pathname s \<noteq> ''/login''
         then s2\<lparr>pushes := pushes s2 @ [''/login'']\<rparr>
         else if truthyStr newToken \<and> pathname s = ''/login''
         then s2\<lparr>pushes := pushes s2 @ [''/dashboard'']\<rparr>
         else s2)"

definition logout :: "session \<Rightarrow> session" where
  "logout s = (let s1 = setToken None s in s1\<lparr>pushes := pushes s1 @ [''/login'']\<rparr>)"

text \<open>The effect of \<open>AdminLayout\<close> (\<open>src/unnamed/part_002\<close>), the other redirect of the
  client: \<open>if (!isLoading && !isAuthenticated) router.push('/login')\<close>, with
  \<open>isAuthenticated = !!token\<close>.\<close>

definition adminLayoutEffect :: "session \<Rightarrow> session" where
  "adminLayoutEffect s =
     (if \<not> isLoading s \<and> \<not> truthyStr (token s) then s\<lparr>pushes := pushes s @ [''/login'']\<rparr>
      else s)"

text \<open>The controller as a state machine: the effects, the two operations it hands to the
  pages, and a change of route, in any order.\<close>

datatype event =
  StartupRead | NavEffect | LayoutEffect | SetToken "string option" | Logout | RouteChange string

fun step :: "event \<Rightarrow> session \<Rightarrow> session" where
  "step StartupRead s = startupRead s"
| "step NavEffect s = navEffect s"
| "step LayoutEffect s = adminLayoutEffect s"
| "step (SetToken newToken) s = setToken newToken s"
| "step Logout s = logout s"
| "step (RouteChange route) s = s\<lparr>pathname := route\<rparr>"

fun run :: "event list \<Rightarrow> session \<Rightarrow> session" where
  "run [] s = s"
| "run (e # es) s = run es (step e s)"

text \<open>
  When the two operations can be called. \<open>logout\<close> is the \<open>onClick\<close> of the button
  that \<open>AdminLayout\<close> renders (\<open>src/unnamed/part_002\<close>); the layout returns the spinner
  while \<open>isLoading\<close> and \<open>null\<close> while not authenticated, so the button exists only
  when \<open>!isLoading && isAuthenticated\<close>. Modelled from the spec: the page that calls
  \<open>setToken\<close> (the login page) is absent from the sources; the spec's transitions take
  \<open>setToken\<close> from the states Unauthenticated and Authenticated, the states after the
  startup read, so the call is enabled when the loading phase is over. The effects and a
  change of route can happen in every state.
\<close>

fun enabled :: "event \<Rightarrow> session \<Rightarrow> bool" where
  "enabled (SetToken newToken) s = (\<not> isLoading s)"
| "enabled Logout s = (\<not> isLoading s \<and> truthyStr (token s))"
| "enabled e s = True"

text \<open>A run of the controller: every event is enabled in the state it happens in.\<close>

fun admissible :: "event list \<Rightarrow> session \<Rightarrow> bool" where
  "admissible [] s = True"
| "admissible (e # es) s = (enabled e s \<and> admissible es (step e s))"

section \<open>Sample inputs\<close>

text \<open>A concrete library and concrete tokens, for evaluating the definitions: a toy keyed
  tag in place of the HMAC, and tokens signed under the fallback secret: for an admin, for
  a customer, with no role in the payload, and expired; a fifth has a guessed signature.\<close>

definition sample_hmac :: "string \<Rightarrow> jwt_payload \<Rightarrow> string" where
  "sample_hmac key p = key @ ''/'' @ (case role p of Str r \<Rightarrow> r | _ \<Rightarrow> [])"

definition sample_payload :: "jsval \<Rightarrow> jwt_payload" where
  "sample_payload r = \<lparr>userId = Str ''u1'', username = Str ''alice'', role = r, iat = 1000, exp = 4600\<rparr>"

definition sample_jws :: "jsval \<Rightarrow> jws" where
  "sample_jws r = \<lparr>jws_payload = sample_payload r,
                   jws_signature = sample_hmac fallback_secret (sample_payload r)\<rparr>"

definition sample_lib :: jwt_lib where
  "sample_lib =
     \<lparr>decode = (\<lambda>s. if s = ''tok-admin'' then Some (sample_jws (Str ''admin''))
                     else if s = ''tok-customer'' then Some (sample_jws (Str ''customer''))
                     else if s = ''tok-norole'' then Some (sample_jws Undefined)
                     else if s = ''tok-expired''
                       then Some ((sample_jws (Str ''admin''))
                                    \<lparr>jws_payload := (sample_payload (Str ''admin''))\<lparr>exp := 1500\<rparr>\<rparr>)
                     else if s = ''tok-forged''
                       then Some ((sample_jws (Str ''admin''))\<lparr>jws_signature := ''guess''\<rparr>)
                     else None),
      hmac = sample_hmac,
      now = 2000\<rparr>"

text \<open>A toy key derivation and entropy source that keep Node's contract on lengths.\<close>

definition sample_pbkdf2 :: pbkdf2_fn where
  "sample_pbkdf2 password salt iterations keylen digest =
     Inr (replicate keylen (of_nat (length password + length salt)))"

definition sample_randomBytes :: "nat \<Rightarrow> byte list" where
  "sample_randomBytes n = replicate n 171"

section \<open>Helper lemmas\<close>

lemmas sample_defs = sample_lib_def sample_jws_def sample_payload_def sample_hmac_def
  JWT_SECRET_def fallback_secret_def

lemma startsWith_append: "startsWith s p \<longleftrightarrow> (\<exists>r. s = p @ r)"
  unfolding startsWith_def
  by (metis append_eq_conv_conj)

lemma protected_not_next:
  "p \<in> set protectedApiPaths \<Longrightarrow> startsWith path p \<Longrightarrow> \<not> startsWith path ''/_next/''"
  by (auto simp: startsWith_append protectedApiPaths_def)

lemma protected_not_public:
  "p \<in> set protectedApiPaths \<Longrightarrow> startsWith path p \<Longrightarrow> \<not> List.member publicPaths path"
  by (auto simp: startsWith_def protectedApiPaths_def publicPaths_def)

lemma protected_isProtectedApi:
  "p \<in> set protectedApiPaths \<Longrightarrow> startsWith path p \<Longrightarrow> isProtectedApi path"
  by (auto simp: isProtectedApi_def list_ex_iff)

lemma split_no_sep: "c \<notin> set s \<Longrightarrow> split c s = [s]"
  by (induction s) auto

lemma split_append_sep: "c \<notin> set a \<Longrightarrow> split c (a @ c # b) = a # split c b"
  by (induction a) auto

text \<open>What the middleware does once control reaches the API branch.\<close>

lemma middleware_api_branch:
  assumes "\<not> startsWith path ''/_next/''" and "\<not> includesChar path CHR ''.''"
    and "\<not> List.member publicPaths path" and "isProtectedApi path"
  shows "middleware verify path hdr =
     (case (case hdr of None \<Rightarrow> None | Some h \<Rightarrow> at (split CHR '' '' h) 1) of
        None \<Rightarrow> Json 401 ''Authentication required''
      | Some t \<Rightarrow>
          if t = [] then Json 401 ''Authentication required''
          else (case verify t of
                  Inl error \<Rightarrow> Json 401 ''Invalid or expired token''
                | Inr decoded \<Rightarrow>
                    if role decoded \<noteq> Str ''admin''
                    then Json 401 ''Invalid or expired token''
                    else NextWithUser decoded))"
  using assms by (simp add: middleware_def)

lemma sample_gate_path:
  "\<not> startsWith ''/api/products'' ''/_next/''" "\<not> includesChar ''/api/products'' CHR ''.''"
  "\<not> List.member publicPaths ''/api/products''" "isProtectedApi ''/api/products''"
  by (simp_all add: startsWith_def includesChar_def publicPaths_def isProtectedApi_def
      protectedApiPaths_def)

lemma sample_verifyToken:
  "verifyToken sample_lib None ''tok-admin'' = Inr (sample_payload (Str ''admin''))"
  "verifyToken sample_lib None ''tok-customer'' = Inr (sample_payload (Str ''customer''))"
  "verifyToken sample_lib None ''tok-expired'' = Inl (Error ''Invalid or expired token'')"
  by (simp_all add: verifyToken_def jwtVerify_def sample_defs)

text \<open>Hexadecimal encoding and decoding are inverse on what \<open>toString('hex')\<close> produces.\<close>

lemma hexDigit_table:
  "list_all (\<lambda>n. hexValue (hexDigit n) = Some n \<and> CHR '':'' \<noteq> hexDigit n) [0..<16]"
  by code_simp

lemma hexValue_hexDigit: "n < 16 \<Longrightarrow> hexValue (hexDigit n) = Some n"
  using hexDigit_table by (simp add: list_all_iff)

lemma hexDigit_not_colon: "n < 16 \<Longrightarrow> CHR '':'' \<noteq> hexDigit n"
  using hexDigit_table by (simp add: list_all_iff)

lemma byte_high_digit: "unat (b::byte) div 16 < 16"
proof -
  have "unat b < 256" using unsigned_less[of b] by simp
  then show ?thesis by arith
qed

lemma fromHex_toHex: "fromHex (toHex bs) = bs"
  by (induction bs) (simp_all add: toHex_def hexValue_hexDigit byte_high_digit)

lemma fromHex_toHex_append: "fromHex (toHex bs @ rest) = bs @ fromHex rest"
  by (induction bs) (simp_all add: toHex_def hexValue_hexDigit byte_high_digit)

lemma toHex_replicate:
  "toHex (replicate n b) = concat (replicate n [hexDigit (unat b div 16), hexDigit (unat b mod 16)])"
  by (simp add: toHex_def map_replicate)

lemma colon_notin_toHex: "CHR '':'' \<notin> set (toHex bs)"
  by (induction bs) (simp_all add: toHex_def hexDigit_not_colon byte_high_digit)

lemma toHex_eq_Nil: "toHex bs = [] \<longleftrightarrow> bs = []"
  by (cases bs) (simp_all add: toHex_def)

lemma split_stored: "split CHR '':'' (toHex a @ '':'' @ toHex b) = [toHex a, toHex b]"
  using split_append_sep[OF colon_notin_toHex, of a "toHex b"]
    split_no_sep[OF colon_notin_toHex, of b]
  by simp

lemma pbkdf2Verify_parts:
  assumes "split CHR '':'' storedHash = salt # key # others" and "salt \<noteq> []" and "key \<noteq> []"
    and "pbkdf2 pw salt ITERATIONS KEY_LENGTH HASH_ALGORITHM = Inr derivedKey"
  shows "pbkdf2Verify pbkdf2 storedHash pw = Inr (fromHex key = derivedKey)"
  using assms
  by (auto simp: pbkdf2Verify_def at_def timingSafeEqual_def fromHex_toHex Let_def)

lemma split_salt_key:
  assumes "CHR '':'' \<notin> set salt" and "CHR '':'' \<notin> set key"
  shows "split CHR '':'' (salt @ '':'' @ key) = [salt, key]"
  using split_append_sep[OF assms(1), of key] split_no_sep[OF assms(2)] by simp

text \<open>The fields of the state after \<open>setToken\<close>.\<close>

lemma setToken_fields:
  "token (setToken t s) = t" "isLoading (setToken t s) = False"
  "pathname (setToken t s) = pathname s"
  "localStorage (setToken t s) = (if truthyStr t then t else None)"
  by (cases t; simp add: setToken_def Let_def)+

lemma setToken_writes:
  "writes (setToken t s) = writes s @ [case t of None \<Rightarrow> RemoveItem
     | Some v \<Rightarrow> if v \<noteq> [] then SetItem v else RemoveItem]"
  by (cases t) (simp_all add: setToken_def Let_def)

lemma setToken_pushes:
  "pushes (setToken t s) = pushes s @
     (if \<not> truthyStr t \<and> pathname s \<noteq> ''/login'' then [''/login'']
      else if truthyStr t \<and> pathname s = ''/login'' then [''/dashboard''] else [])"
  by (cases t) (simp_all add: setToken_def Let_def)

text \<open>Every transition keeps: while \<open>isLoading\<close>, no redirect has been pushed.\<close>

lemma step_keeps_quiet:
  "(isLoading s \<longrightarrow> pushes s = []) \<Longrightarrow> isLoading (step e s) \<longrightarrow> pushes (step e s) = []"
  by (cases e)
    (auto simp: startupRead_def navEffect_def adminLayoutEffect_def logout_def
      setToken_fields Let_def)

lemma run_append: "run (a @ b) s = run b (run a s)"
  by (induction a arbitrary: s) simp_all

lemma admissible_append:
  "admissible (a @ b) s \<longleftrightarrow> admissible a s \<and> admissible b (run a s)"
  by (induction a arbitrary: s) auto

lemma step_while_loading:
  "isLoading s \<Longrightarrow> enabled e s \<Longrightarrow> pushes (step e s) = pushes s"
  by (cases e) (simp_all add: startupRead_def navEffect_def adminLayoutEffect_def Let_def)

lemma step_stays_loading:
  "isLoading s \<Longrightarrow> enabled e s \<Longrightarrow> e \<noteq> StartupRead \<Longrightarrow> isLoading (step e s)"
  by (cases e) (simp_all add: navEffect_def adminLayoutEffect_def)

lemma run_stays_loading:
  "isLoading s \<Longrightarrow> admissible evs s \<Longrightarrow> StartupRead \<notin> set evs \<Longrightarrow> isLoading (run evs s)"
proof (induction evs arbitrary: s)
  case Nil
  then show ?case by simp
next
  case (Cons e evs)
  from Cons.prems have "isLoading (step e s)"
    using step_stays_loading[of s e] by auto
  with Cons show ?case by simp
qed

lemma run_keeps_quiet:
  "(isLoading s \<longrightarrow> pushes s = []) \<Longrightarrow> isLoading (run evs s) \<longrightarrow> pushes (run evs s) = []"
proof (induction evs arbitrary: s)
  case Nil
  then show ?case by simp
next
  case (Cons e evs)
  from Cons.IH[OF step_keeps_quiet[OF Cons.prems]] show ?case by simp
qed

section \<open>Request Gate: rejections on the protected API\<close>

text \<open>C1, as stated, fails: a token that verifies and carries the role \<open>customer\<close> is
  answered with status 401 and the message of an invalid token, not with 403.\<close>

theorem middleware_customer_gets_401:
  "verifyToken sample_lib None ''tok-customer'' = Inr (sample_payload (Str ''customer''))
   \<and> middleware (verifyToken sample_lib None) ''/api/products'' (Some ''Bearer tok-customer'')
       = Json 401 ''Invalid or expired token''"
  by (simp add: middleware_api_branch[OF sample_gate_path] sample_verifyToken at_def
      sample_payload_def)

text \<open>C1, amended. For every request whose path begins with a protected-API prefix and
  contains no dot: without an \<open>Authorization\<close> header the gate answers 401
  (\<open>Authentication required\<close>); with a header whose token verifies but whose role is not
  \<open>admin\<close> it answers 401 as well, with the message it gives for an invalid token. The
  code has no 403 answer.\<close>

theorem middleware_protected_api_rejections:
  assumes "p \<in> set protectedApiPaths" and "startsWith path p"
    and "\<not> includesChar path CHR ''.''"
  shows "middleware verify path None = Json 401 ''Authentication required''
     \<and> (\<forall>h tok decoded.
           at (split CHR '' '' h) 1 = Some tok \<and> tok \<noteq> [] \<and> verify tok = Inr decoded
             \<and> role decoded \<noteq> Str ''admin''
           \<longrightarrow> middleware verify path (Some h) = Json 401 ''Invalid or expired token'')"
  using middleware_api_branch[OF protected_not_next[OF assms(1,2)] assms(3)
      protected_not_public[OF assms(1,2)] protected_isProtectedApi[OF assms(1,2)]]
  by simp

theorem middleware_protected_api_rejections_witness:
  "middleware (verifyToken sample_lib None) ''/api/orders/17'' None
     = Json 401 ''Authentication required''
   \<and> middleware (verifyToken sample_lib None) ''/api/orders/17'' (Some ''Bearer tok-customer'')
     = Json 401 ''Invalid or expired token''"
proof -
  have a: "''/api/orders'' \<in> set protectedApiPaths"
    by (simp add: protectedApiPaths_def)
  have b: "startsWith ''/api/orders/17'' ''/api/orders''"
    by (simp add: startsWith_def)
  have c: "\<not> includesChar ''/api/orders/17'' CHR ''.''"
    by (simp add: includesChar_def)
  have d: "at (split CHR '' '' ''Bearer tok-customer'') 1 = Some ''tok-customer''"
    by (simp add: at_def)
  have f: "role (sample_payload (Str ''customer'')) \<noteq> Str ''admin''"
    by (simp add: sample_payload_def)
  from middleware_protected_api_rejections[OF a b c, of "verifyToken sample_lib None"]
    d sample_verifyToken(2) f
  show ?thesis by blast
qed

section \<open>Token Service: when \<open>verifyToken\<close> accepts\<close>

text \<open>C2, as stated, fails on the jose variant \<open>part_004\<close>: a token whose signature
  verifies and which has not expired, but whose payload has no role, is rejected.\<close>

theorem verifyToken_part004_rejects_valid_token:
  "tokenValid sample_lib (JWT_SECRET None) ''tok-norole''
   \<and> verifyToken_part004 sample_lib None ''tok-norole'' = Inl (Error ''Invalid or expired token'')"
  by (simp add: tokenValid_def verifyToken_part004_def jwtVerify_def sample_defs)

text \<open>C2, amended. \<open>verifyToken\<close> of \<open>lib/authUtils.ts\<close> returns claims if and only if
  the signature verifies under the server secret and the current time is before
  \<open>expiresAt\<close>. The jose variants accept if and only if, in addition, the payload's
  \<open>userId\<close>, \<open>username\<close> and \<open>role\<close> are truthy (\<open>part_004\<close>) or are strings
  (\<open>part_003\<close>).\<close>

theorem verifyToken_accepts_iff:
  "((\<exists>c. verifyToken L env t = Inr c) \<longleftrightarrow> tokenValid L (JWT_SECRET env) t)
   \<and> ((\<exists>c. verifyToken_part004 L env t = Inr c) \<longleftrightarrow>
        tokenValid L (JWT_SECRET env) t
        \<and> (case decode L t of None \<Rightarrow> False
            | Some j \<Rightarrow> truthy (userId (jws_payload j)) \<and> truthy (username (jws_payload j))
                        \<and> truthy (role (jws_payload j))))
   \<and> ((\<exists>c. verifyToken_part003 L env t = Inr c) \<longleftrightarrow>
        tokenValid L (JWT_SECRET env) t
        \<and> (case decode L t of None \<Rightarrow> False
            | Some j \<Rightarrow> isString (userId (jws_payload j)) \<and> isString (username (jws_payload j))
                        \<and> isString (role (jws_payload j))))"
  by (auto simp: verifyToken_def verifyToken_part004_def verifyToken_part003_def
      jwtVerify_def tokenValid_def split: option.splits)

theorem verifyToken_accepts_iff_witness:
  "(\<exists>c. verifyToken sample_lib None ''tok-norole'' = Inr c)
   \<and> \<not> (\<exists>c. verifyToken_part004 sample_lib None ''tok-norole'' = Inr c)
   \<and> \<not> (\<exists>c. verifyToken_part003 sample_lib None ''tok-norole'' = Inr c)
   \<and> (\<exists>c. verifyToken_part004 sample_lib None ''tok-admin'' = Inr c)
   \<and> (\<exists>c. verifyToken_part003 sample_lib None ''tok-admin'' = Inr c)
   \<and> \<not> (\<exists>c. verifyToken sample_lib None ''tok-expired'' = Inr c)"
proof -
  have a: "tokenValid sample_lib (JWT_SECRET None) ''tok-norole''"
    by (simp add: tokenValid_def sample_defs)
  have b: "tokenValid sample_lib (JWT_SECRET None) ''tok-admin''"
    by (simp add: tokenValid_def sample_defs)
  have c: "\<not> tokenValid sample_lib (JWT_SECRET None) ''tok-expired''"
    by (simp add: tokenValid_def sample_defs)
  have d: "decode sample_lib ''tok-norole'' = Some (sample_jws Undefined)"
    "decode sample_lib ''tok-admin'' = Some (sample_jws (Str ''admin''))"
    by (simp_all add: sample_lib_def)
  have e: "jws_payload (sample_jws r) = sample_payload r" for r
    by (simp add: sample_jws_def)
  show ?thesis
    using verifyToken_accepts_iff[of sample_lib None "''tok-norole''"]
      verifyToken_accepts_iff[of sample_lib None "''tok-admin''"]
      verifyToken_accepts_iff[of sample_lib None "''tok-expired''"] a b c
    by (simp add: d e sample_payload_def)
qed

section \<open>Token Service: the error of a rejected token\<close>

text \<open>C3, as stated, fails on the jose variant \<open>part_003\<close>: the error it throws names
  the failure mode.\<close>

theorem verifyToken_part003_names_failure_mode:
  "verifyToken_part003 sample_lib None ''tok-expired'' = Inl (Error ''Token expired'')
   \<and> verifyToken_part003 sample_lib None ''tok-forged'' = Inl (Error ''Invalid token signature'')
   \<and> verifyToken_part003 sample_lib None ''not-a-token'' = Inl (Error ''Invalid token format'')"
  by (simp add: verifyToken_part003_def catch_part003_def jwtVerify_def sample_defs)

text \<open>C3, amended. \<open>verifyToken\<close> of \<open>lib/authUtils.ts\<close> and of \<open>part_004\<close> fail with
  the one error \<open>Invalid or expired token\<close> whatever the failure mode. The variant
  \<open>part_003\<close> fails with an error that names the mode: \<open>Invalid token format\<close> for a
  string that is no token, \<open>Invalid token signature\<close> for a signature that does not
  verify, \<open>Token expired\<close> for a verified token past its expiry, and \<open>Invalid token\<close>
  for a verified, unexpired token whose identity fields are not all strings. The Request
  Gate answers a failure of whichever \<open>verifyToken\<close> it is given with the same 401
  response, so what reaches the client does not depend on the mode.\<close>

theorem verifyToken_failure_surfaced:
  "(\<forall>e. verifyToken L env tok = Inl e \<longrightarrow> e = Error ''Invalid or expired token'')
   \<and> (\<forall>e. verifyToken_part004 L env tok = Inl e \<longrightarrow> e = Error ''Invalid or expired token'')
   \<and> (decode L tok = None \<longrightarrow>
         verifyToken_part003 L env tok = Inl (Error ''Invalid token format''))
   \<and> (\<forall>j. decode L tok = Some j
           \<and> jws_signature j \<noteq> hmac L (JWT_SECRET env) (jws_payload j)
         \<longrightarrow> verifyToken_part003 L env tok = Inl (Error ''Invalid token signature''))
   \<and> (\<forall>j. decode L tok = Some j
           \<and> jws_signature j = hmac L (JWT_SECRET env) (jws_payload j)
           \<and> exp (jws_payload j) \<le> now L
         \<longrightarrow> verifyToken_part003 L env tok = Inl (Error ''Token expired''))
   \<and> (\<forall>j. decode L tok = Some j
           \<and> jws_signature j = hmac L (JWT_SECRET env) (jws_payload j)
           \<and> now L < exp (jws_payload j)
           \<and> (\<not> isString (userId (jws_payload j)) \<or> \<not> isString (username (jws_payload j))
                \<or> \<not> isString (role (jws_payload j)))
         \<longrightarrow> verifyToken_part003 L env tok = Inl (Error ''Invalid token''))
   \<and> (\<forall>path h verify e.
         \<not> startsWith path ''/_next/'' \<and> \<not> includesChar path CHR ''.''
           \<and> \<not> List.member publicPaths path \<and> isProtectedApi path
           \<and> at (split CHR '' '' h) 1 = Some tok \<and> tok \<noteq> [] \<and> verify tok = Inl e
         \<longrightarrow> middleware verify path (Some h) = Json 401 ''Invalid or expired token'')"
proof (intro conjI allI impI)
  fix e assume "verifyToken L env tok = Inl e"
  then show "e = Error ''Invalid or expired token''"
    by (auto simp: verifyToken_def split: sum.splits)
next
  fix e assume "verifyToken_part004 L env tok = Inl e"
  then show "e = Error ''Invalid or expired token''"
    by (auto simp: verifyToken_part004_def split: sum.splits if_splits)
next
  assume "decode L tok = None"
  then show "verifyToken_part003 L env tok = Inl (Error ''Invalid token format'')"
    by (simp add: verifyToken_part003_def jwtVerify_def catch_part003_def)
next
  fix j assume "decode L tok = Some j
           \<and> jws_signature j \<noteq> hmac L (JWT_SECRET env) (jws_payload j)"
  then show "verifyToken_part003 L env tok = Inl (Error ''Invalid token signature'')"
    by (simp add: verifyToken_part003_def jwtVerify_def catch_part003_def)
next
  fix j assume "decode L tok = Some j
           \<and> jws_signature j = hmac L (JWT_SECRET env) (jws_payload j)
           \<and> exp (jws_payload j) \<le> now L"
  then show "verifyToken_part003 L env tok = Inl (Error ''Token expired'')"
    by (simp add: verifyToken_part003_def jwtVerify_def catch_part003_def)
next
  fix j assume "decode L tok = Some j
           \<and> jws_signature j = hmac L (JWT_SECRET env) (jws_payload j)
           \<and> now L < exp (jws_payload j)
           \<and> (\<not> isString (userId (jws_payload j)) \<or> \<not> isString (username (jws_payload j))
                \<or> \<not> isString (role (jws_payload j)))"
  then show "verifyToken_part003 L env tok = Inl (Error ''Invalid token'')"
    by (auto simp: verifyToken_part003_def jwtVerify_def catch_part003_def)
next
  fix path h and verify :: "string \<Rightarrow> js_error + jwt_payload" and e
  assume "\<not> startsWith path ''/_next/'' \<and> \<not> includesChar path CHR ''.''
           \<and> \<not> List.member publicPaths path \<and> isProtectedApi path
           \<and> at (split CHR '' '' h) 1 = Some tok \<and> tok \<noteq> [] \<and> verify tok = Inl e"
  then show "middleware verify path (Some h) = Json 401 ''Invalid or expired token''"
    by (simp add: middleware_api_branch)
qed

theorem verifyToken_failure_surfaced_witness:
  "verifyToken sample_lib None ''tok-expired'' = Inl (Error ''Invalid or expired token'')
   \<and> verifyToken_part004 sample_lib None ''tok-expired'' = Inl (Error ''Invalid or expired token'')
   \<and> verifyToken_part003 sample_lib None ''tok-expired'' = Inl (Error ''Token expired'')
   \<and> verifyToken_part003 sample_lib None ''not-a-token'' = Inl (Error ''Invalid token format'')
   \<and> verifyToken_part003 sample_lib None ''tok-forged'' = Inl (Error ''Invalid token signature'')
   \<and> verifyToken_part003 sample_lib None ''tok-norole'' = Inl (Error ''Invalid token'')
   \<and> middleware (verifyToken sample_lib None) ''/api/products'' (Some ''Bearer tok-expired'')
       = Json 401 ''Invalid or expired token''
   \<and> middleware (verifyToken_part003 sample_lib None) ''/api/products'' (Some ''Bearer tok-expired'')
       = Json 401 ''Invalid or expired token''"
proof -
  let ?j = "(sample_jws (Str ''admin''))\<lparr>jws_payload := (sample_payload (Str ''admin''))\<lparr>exp := 1500\<rparr>\<rparr>"
  let ?f = "(sample_jws (Str ''admin''))\<lparr>jws_signature := ''guess''\<rparr>"
  let ?n = "sample_jws Undefined"
  have dec: "decode sample_lib ''tok-expired'' = Some ?j"
    "decode sample_lib ''not-a-token'' = None"
    "decode sample_lib ''tok-forged'' = Some ?f"
    "decode sample_lib ''tok-norole'' = Some ?n"
    by (simp_all add: sample_lib_def)
  have sig: "jws_signature ?j = hmac sample_lib (JWT_SECRET None) (jws_payload ?j)"
    "jws_signature ?f \<noteq> hmac sample_lib (JWT_SECRET None) (jws_payload ?f)"
    "jws_signature ?n = hmac sample_lib (JWT_SECRET None) (jws_payload ?n)"
    by (simp_all add: sample_defs)
  have old: "exp (jws_payload ?j) \<le> now sample_lib" "now sample_lib < exp (jws_payload ?n)"
    by (simp_all add: sample_defs)
  have norole: "\<not> isString (role (jws_payload ?n))"
    by (simp add: sample_defs)
  have hdr: "at (split CHR '' '' ''Bearer tok-expired'') 1 = Some ''tok-expired''"
    "''tok-expired'' \<noteq> []"
    by (simp_all add: at_def)
  have four: "verifyToken_part004 sample_lib None ''tok-expired''
      = Inl (Error ''Invalid or expired token'')"
    by (simp add: verifyToken_part004_def jwtVerify_def sample_defs)
  note inst = verifyToken_failure_surfaced[of sample_lib None "''tok-expired''"]
  from inst dec(1) sig(1) old(1)
  have three: "verifyToken_part003 sample_lib None ''tok-expired'' = Inl (Error ''Token expired'')"
    by blast
  from verifyToken_failure_surfaced[of sample_lib None "''not-a-token''"] dec(2)
  have format: "verifyToken_part003 sample_lib None ''not-a-token''
      = Inl (Error ''Invalid token format'')"
    by blast
  from verifyToken_failure_surfaced[of sample_lib None "''tok-forged''"] dec(3) sig(2)
  have forged: "verifyToken_part003 sample_lib None ''tok-forged''
      = Inl (Error ''Invalid token signature'')"
    by blast
  from verifyToken_failure_surfaced[of sample_lib None "''tok-norole''"] dec(4) sig(3) old(2) norole
  have payload: "verifyToken_part003 sample_lib None ''tok-norole'' = Inl (Error ''Invalid token'')"
    by blast
  from inst sample_gate_path hdr sample_verifyToken(3)
  have g1: "middleware (verifyToken sample_lib None) ''/api/products'' (Some ''Bearer tok-expired'')
       = Json 401 ''Invalid or expired token''"
    by blast
  from inst sample_gate_path hdr three
  have g2: "middleware (verifyToken_part003 sample_lib None) ''/api/products''
       (Some ''Bearer tok-expired'') = Json 401 ''Invalid or expired token''"
    by blast
  from sample_verifyToken(3) four three format forged payload g1 g2 show ?thesis by blast
qed

section \<open>Token Service: a missing signing secret\<close>

text \<open>C4, as stated, fails: with \<open>JWT_SECRET\<close> missing from the environment the secret is
  the fallback string; the login route signs with it, \<open>verifyToken\<close> verifies with it,
  and the gate admits the request.\<close>

theorem missing_secret_falls_back:
  "JWT_SECRET None = ''fallback-secret-key-replace-in-production''
   \<and> jws_signature (signToken sample_lib None (Str ''u1'') (Str ''alice'') (Str ''admin''))
       = sample_hmac ''fallback-secret-key-replace-in-production''
           (jws_payload (signToken sample_lib None (Str ''u1'') (Str ''alice'') (Str ''admin'')))
   \<and> verifyToken sample_lib None ''tok-admin'' = Inr (sample_payload (Str ''admin''))
   \<and> middleware (verifyToken sample_lib None) ''/api/products'' (Some ''Bearer tok-admin'')
       = NextWithUser (sample_payload (Str ''admin''))"
proof -
  have a: "JWT_SECRET None = ''fallback-secret-key-replace-in-production''"
    by (simp add: JWT_SECRET_def fallback_secret_def)
  have b: "jws_signature (signToken sample_lib None (Str ''u1'') (Str ''alice'') (Str ''admin''))
       = sample_hmac ''fallback-secret-key-replace-in-production''
           (jws_payload (signToken sample_lib None (Str ''u1'') (Str ''alice'') (Str ''admin'')))"
    by (simp add: signToken_def Let_def a sample_lib_def)
  have c: "middleware (verifyToken sample_lib None) ''/api/products'' (Some ''Bearer tok-admin'')
       = NextWithUser (sample_payload (Str ''admin''))"
    by (simp add: middleware_api_branch[OF sample_gate_path] sample_verifyToken at_def
        sample_payload_def)
  from a b c sample_verifyToken(1) show ?thesis by simp
qed

text \<open>C4, amended. When \<open>JWT_SECRET\<close> is missing from the environment, or empty, the
  system does not fail: it uses the fixed fallback secret, and every variant of
  \<open>verifyToken\<close> and the signing of the login route behave as if the environment had
  held that string.\<close>

theorem JWT_SECRET_fallback:
  "JWT_SECRET None = fallback_secret
   \<and> JWT_SECRET (Some []) = fallback_secret
   \<and> verifyToken L None t = verifyToken L (Some fallback_secret) t
   \<and> verifyToken_part004 L None t = verifyToken_part004 L (Some fallback_secret) t
   \<and> verifyToken_part003 L None t = verifyToken_part003 L (Some fallback_secret) t
   \<and> jws_signature (signToken L None uid uname urole)
       = hmac L fallback_secret (jws_payload (signToken L None uid uname urole))"
  by (simp add: JWT_SECRET_def verifyToken_def verifyToken_part004_def verifyToken_part003_def
      signToken_def fallback_secret_def Let_def)

theorem JWT_SECRET_fallback_witness:
  "JWT_SECRET None = fallback_secret
   \<and> verifyToken sample_lib (Some fallback_secret) ''tok-admin''
       = Inr (sample_payload (Str ''admin''))
   \<and> verifyToken_part004 sample_lib None ''tok-admin''
       = verifyToken_part004 sample_lib (Some fallback_secret) ''tok-admin''"
  using JWT_SECRET_fallback[of sample_lib "''tok-admin''"] sample_verifyToken(1)
  by simp

section \<open>Request Gate: classification of paths\<close>

text \<open>C5. A protected API path with a dot in a middle segment, sent without any
  credential, is passed through by the first test of the middleware
  (\<open>pathname.includes('.')\<close>): the token check is not applied to it.\<close>

theorem middleware_dot_path_unchecked:
  "middleware verify ''/api/products/v1.2/items'' None = Next"
  by (simp add: middleware_def includesChar_def)

section \<open>Credential Hasher: hashing, then verifying\<close>

text \<open>C6. For every password, when the entropy source returns the bytes asked for and
  the key derivation returns its key of \<open>KEY_LENGTH\<close> bytes, \<open>pbkdf2Hash\<close> returns a
  stored hash, and \<open>pbkdf2Verify\<close> of that stored hash and the same password returns
  \<open>true\<close>.\<close>

theorem pbkdf2Verify_of_pbkdf2Hash:
  assumes "length (randomBytes SALT_BYTES) = SALT_BYTES"
    and "pbkdf2 password (toHex (randomBytes SALT_BYTES)) ITERATIONS KEY_LENGTH HASH_ALGORITHM
           = Inr derivedKey"
    and "length derivedKey = KEY_LENGTH"
  shows "\<exists>storedHash. pbkdf2Hash pbkdf2 randomBytes password = Inr storedHash
           \<and> pbkdf2Verify pbkdf2 storedHash password = Inr True"
proof -
  let ?salt = "toHex (randomBytes SALT_BYTES)"
  have salt: "?salt \<noteq> []"
    using assms(1) by (auto simp: toHex_eq_Nil SALT_BYTES_def)
  have key: "toHex derivedKey \<noteq> []"
    using assms(3) by (auto simp: toHex_eq_Nil KEY_LENGTH_def)
  have h: "pbkdf2Hash pbkdf2 randomBytes password = Inr (?salt @ '':'' @ toHex derivedKey)"
    using assms(2) by (simp add: pbkdf2Hash_def)
  have v: "pbkdf2Verify pbkdf2 (?salt @ '':'' @ toHex derivedKey) password = Inr True"
    unfolding pbkdf2Verify_def split_stored
    using salt key assms(2) by (simp add: at_def timingSafeEqual_def fromHex_toHex)
  from h v show ?thesis by blast
qed

theorem pbkdf2Verify_of_pbkdf2Hash_witness:
  "\<exists>storedHash. pbkdf2Hash sample_pbkdf2 sample_randomBytes ''password123'' = Inr storedHash
           \<and> pbkdf2Verify sample_pbkdf2 storedHash ''password123'' = Inr True"
proof -
  have a: "length (sample_randomBytes SALT_BYTES) = SALT_BYTES"
    by (simp add: sample_randomBytes_def)
  have b: "sample_pbkdf2 ''password123'' (toHex (sample_randomBytes SALT_BYTES))
             ITERATIONS KEY_LENGTH HASH_ALGORITHM
     = Inr (replicate KEY_LENGTH
         (of_nat (length ''password123'' + length (toHex (sample_randomBytes SALT_BYTES)))))"
    by (simp add: sample_pbkdf2_def)
  have c: "length (replicate KEY_LENGTH
         (of_nat (length ''password123'' + length (toHex (sample_randomBytes SALT_BYTES))))
           :: byte list) = KEY_LENGTH"
    by simp
  from pbkdf2Verify_of_pbkdf2Hash[of sample_randomBytes sample_pbkdf2 "''password123''", OF a b c]
  show ?thesis .
qed

section \<open>Credential Hasher: malformed stored hashes\<close>

text \<open>C7, as stated, fails: a stored hash whose salt segment is not hexadecimal, and one
  whose key segment ends in characters that are not hexadecimal, are both verified with
  \<open>true\<close> for the matching password. The salt is handed to the derivation as a string,
  and the decoding of the key stops at the first pair that is not hexadecimal.\<close>

theorem pbkdf2Verify_accepts_non_hex:
  "\<not> isHex ''zz''
   \<and> pbkdf2Verify sample_pbkdf2 (''zz:'' @ concat (replicate 64 ''04'')) ''pw'' = Inr True
   \<and> \<not> isHex (concat (replicate 64 ''06'') @ ''zz'')
   \<and> pbkdf2Verify sample_pbkdf2 (''abab:'' @ concat (replicate 64 ''06'') @ ''zz'') ''pw'' = Inr True"
proof -
  have z: "hexValue CHR ''z'' = None"
    by (simp add: hexValue_def)
  have k4: "concat (replicate 64 ''04'') = toHex (replicate 64 (4::byte))"
    by (simp add: toHex_replicate hexDigit_def)
  have k6: "concat (replicate 64 ''06'') = toHex (replicate 64 (6::byte))"
    by (simp add: toHex_replicate hexDigit_def)
  have d4: "sample_pbkdf2 ''pw'' ''zz'' ITERATIONS KEY_LENGTH HASH_ALGORITHM = Inr (replicate 64 4)"
    by (simp add: sample_pbkdf2_def KEY_LENGTH_def)
  have d6: "sample_pbkdf2 ''pw'' ''abab'' ITERATIONS KEY_LENGTH HASH_ALGORITHM = Inr (replicate 64 6)"
    by (simp add: sample_pbkdf2_def KEY_LENGTH_def)
  have s4: "split CHR '':'' (''zz:'' @ toHex (replicate 64 (4::byte))) = [''zz'', toHex (replicate 64 4)]"
    using split_append_sep[of "CHR '':''" "''zz''" "toHex (replicate 64 (4::byte))"]
      split_no_sep[OF colon_notin_toHex, of "replicate 64 (4::byte)"]
    by simp
  have s6: "split CHR '':'' (''abab:'' @ toHex (replicate 64 (6::byte)) @ ''zz'')
      = [''abab'', toHex (replicate 64 6) @ ''zz'']"
    using split_append_sep[of "CHR '':''" "''abab''" "toHex (replicate 64 (6::byte)) @ ''zz''"]
      split_no_sep[of "CHR '':''" "toHex (replicate 64 (6::byte)) @ ''zz''"] colon_notin_toHex
    by simp
  have n4: "toHex (replicate 64 (4::byte)) \<noteq> []"
    by (simp add: toHex_eq_Nil)
  have f6: "fromHex (toHex (replicate 64 (6::byte)) @ ''zz'') = replicate 64 6"
    by (simp add: fromHex_toHex_append z)
  have 1: "\<not> isHex ''zz''"
    by (simp add: isHex_def z)
  have 2: "pbkdf2Verify sample_pbkdf2 (''zz:'' @ concat (replicate 64 ''04'')) ''pw'' = Inr True"
    unfolding k4 pbkdf2Verify_def s4
    using n4 by (simp add: at_def d4 timingSafeEqual_def fromHex_toHex)
  have 3: "\<not> isHex (concat (replicate 64 ''06'') @ ''zz'')"
    by (simp add: isHex_def z)
  have 4: "pbkdf2Verify sample_pbkdf2 (''abab:'' @ concat (replicate 64 ''06'') @ ''zz'') ''pw''
      = Inr True"
    unfolding k6 pbkdf2Verify_def s6
    by (simp add: at_def d6 timingSafeEqual_def fromHex_toHex f6)
  from 1 2 3 4 show ?thesis by blast
qed

text \<open>C7, amended. For every candidate password, \<open>pbkdf2Verify\<close> returns \<open>false\<close> for a
  stored hash with no \<open>:\<close>, for one whose first or second part is empty, and for one
  whose second part decodes to a byte length other than that of the derived key; and
  whatever the stored hash, it returns a boolean (it neither throws nor rejects) as long
  as the key derivation itself reports no error. Characters that are not hexadecimal are
  not detected as such: when both parts are non-empty the result is whether the bytes
  decoded from the second part equal the key derived from the password and the first
  part, taken as it is. So for any non-empty salt without \<open>:\<close>, hexadecimal or not, the
  stored hash made of that salt and the hexadecimal digits of the derived key verifies
  with \<open>true\<close>, also when the digits are followed by characters that the decoding drops
  (fewer than two, or not beginning with a hexadecimal pair).\<close>

theorem pbkdf2Verify_malformed:
  "(CHR '':'' \<notin> set storedHash \<longrightarrow> pbkdf2Verify pbkdf2 storedHash pw = Inr False)
   \<and> (\<forall>salt key others.
         split CHR '':'' storedHash = salt # key # others \<and> (salt = [] \<or> key = [])
         \<longrightarrow> pbkdf2Verify pbkdf2 storedHash pw = Inr False)
   \<and> (\<forall>salt key others derivedKey.
         split CHR '':'' storedHash = salt # key # others
         \<and> pbkdf2 pw salt ITERATIONS KEY_LENGTH HASH_ALGORITHM = Inr derivedKey
         \<and> length (fromHex key) \<noteq> length derivedKey
         \<longrightarrow> pbkdf2Verify pbkdf2 storedHash pw = Inr False)
   \<and> ((\<forall>salt. \<exists>derivedKey. pbkdf2 pw salt ITERATIONS KEY_LENGTH HASH_ALGORITHM = Inr derivedKey)
         \<longrightarrow> (\<exists>b. pbkdf2Verify pbkdf2 storedHash pw = Inr b))
   \<and> (\<forall>salt key others derivedKey.
         split CHR '':'' storedHash = salt # key # others \<and> salt \<noteq> [] \<and> key \<noteq> []
         \<and> pbkdf2 pw salt ITERATIONS KEY_LENGTH HASH_ALGORITHM = Inr derivedKey
         \<longrightarrow> pbkdf2Verify pbkdf2 storedHash pw = Inr (fromHex key = derivedKey))
   \<and> (\<forall>salt derivedKey rest.
         salt \<noteq> [] \<and> CHR '':'' \<notin> set salt \<and> CHR '':'' \<notin> set rest \<and> fromHex rest = []
         \<and> pbkdf2 pw salt ITERATIONS KEY_LENGTH HASH_ALGORITHM = Inr derivedKey
         \<and> derivedKey \<noteq> []
         \<longrightarrow> pbkdf2Verify pbkdf2 (salt @ '':'' @ toHex derivedKey @ rest) pw = Inr True)"
proof (intro conjI allI impI)
  assume "CHR '':'' \<notin> set storedHash"
  then show "pbkdf2Verify pbkdf2 storedHash pw = Inr False"
    by (simp add: pbkdf2Verify_def split_no_sep at_def)
next
  fix salt key others
  assume "split CHR '':'' storedHash = salt # key # others \<and> (salt = [] \<or> key = [])"
  then show "pbkdf2Verify pbkdf2 storedHash pw = Inr False"
    by (auto simp: pbkdf2Verify_def at_def)
next
  fix salt key others derivedKey
  assume "split CHR '':'' storedHash = salt # key # others
         \<and> pbkdf2 pw salt ITERATIONS KEY_LENGTH HASH_ALGORITHM = Inr derivedKey
         \<and> length (fromHex key) \<noteq> length derivedKey"
  then show "pbkdf2Verify pbkdf2 storedHash pw = Inr False"
    by (auto simp: pbkdf2Verify_def at_def timingSafeEqual_def fromHex_toHex)
next
  assume total:
    "\<forall>salt. \<exists>derivedKey. pbkdf2 pw salt ITERATIONS KEY_LENGTH HASH_ALGORITHM = Inr derivedKey"
  show "\<exists>b. pbkdf2Verify pbkdf2 storedHash pw = Inr b"
  proof (cases "\<not> truthyStr (at (split CHR '':'' storedHash) 0)
                 \<or> \<not> truthyStr (at (split CHR '':'' storedHash) 1)")
    case True
    then have "pbkdf2Verify pbkdf2 storedHash pw = Inr False"
      by (simp add: pbkdf2Verify_def)
    then show ?thesis by blast
  next
    case False
    from total obtain dk where
      "pbkdf2 pw (the (at (split CHR '':'' storedHash) 0)) ITERATIONS KEY_LENGTH HASH_ALGORITHM
         = Inr dk"
      by blast
    with False show ?thesis
      by (auto simp: pbkdf2Verify_def timingSafeEqual_def Let_def)
  qed
next
  fix salt key others derivedKey
  assume "split CHR '':'' storedHash = salt # key # others \<and> salt \<noteq> [] \<and> key \<noteq> []
         \<and> pbkdf2 pw salt ITERATIONS KEY_LENGTH HASH_ALGORITHM = Inr derivedKey"
  then show "pbkdf2Verify pbkdf2 storedHash pw = Inr (fromHex key = derivedKey)"
    by (simp add: pbkdf2Verify_parts)
next
  fix salt derivedKey rest
  assume a: "salt \<noteq> [] \<and> CHR '':'' \<notin> set salt \<and> CHR '':'' \<notin> set rest \<and> fromHex rest = []
         \<and> pbkdf2 pw salt ITERATIONS KEY_LENGTH HASH_ALGORITHM = Inr derivedKey
         \<and> derivedKey \<noteq> []"
  then have n: "CHR '':'' \<notin> set (toHex derivedKey @ rest)"
    by (simp add: colon_notin_toHex)
  from a have "CHR '':'' \<notin> set salt"
    by simp
  from split_salt_key[OF this n]
  have s: "split CHR '':'' (salt @ '':'' @ toHex derivedKey @ rest)
      = salt # (toHex derivedKey @ rest) # []"
    by simp
  from a have k: "toHex derivedKey @ rest \<noteq> []"
    by (simp add: toHex_eq_Nil)
  from pbkdf2Verify_parts[OF s _ k, of pbkdf2 pw derivedKey] a
  show "pbkdf2Verify pbkdf2 (salt @ '':'' @ toHex derivedKey @ rest) pw = Inr True"
    by (simp add: fromHex_toHex_append)
qed

theorem pbkdf2Verify_malformed_witness:
  "pbkdf2Verify sample_pbkdf2 ''0a1b2c'' ''pw'' = Inr False
   \<and> pbkdf2Verify sample_pbkdf2 '':0a1b'' ''pw'' = Inr False
   \<and> pbkdf2Verify sample_pbkdf2 ''0a1b:'' ''pw'' = Inr False
   \<and> pbkdf2Verify sample_pbkdf2 ''0a1b:0808zz'' ''pw'' = Inr False
   \<and> (\<exists>b. pbkdf2Verify sample_pbkdf2 ''0a:1b:2c'' ''pw'' = Inr b)
   \<and> pbkdf2Verify sample_pbkdf2 ''0a1b:0808zz'' ''pw''
       = Inr (fromHex ''0808zz'' = replicate KEY_LENGTH 6)
   \<and> pbkdf2Verify sample_pbkdf2 (''zz'' @ '':'' @ toHex (replicate KEY_LENGTH 4) @ ''zz'') ''pw''
       = Inr True"
proof -
  have a: "CHR '':'' \<notin> set ''0a1b2c''"
    by simp
  have b: "split CHR '':'' '':0a1b'' = [] # ''0a1b'' # []"
    "split CHR '':'' ''0a1b:'' = ''0a1b'' # [] # []"
    "split CHR '':'' ''0a1b:0808zz'' = ''0a1b'' # ''0808zz'' # []"
    by simp_all
  have c: "sample_pbkdf2 ''pw'' ''0a1b'' ITERATIONS KEY_LENGTH HASH_ALGORITHM
             = Inr (replicate KEY_LENGTH 6)"
    "sample_pbkdf2 ''pw'' ''zz'' ITERATIONS KEY_LENGTH HASH_ALGORITHM
             = Inr (replicate KEY_LENGTH 4)"
    by (simp_all add: sample_pbkdf2_def)
  have d: "length (fromHex ''0808zz'') \<noteq> length (replicate KEY_LENGTH (6::byte))"
    by (simp add: hexValue_def KEY_LENGTH_def)
  have e: "\<forall>salt. \<exists>derivedKey.
             sample_pbkdf2 ''pw'' salt ITERATIONS KEY_LENGTH HASH_ALGORITHM = Inr derivedKey"
    by (simp add: sample_pbkdf2_def)
  have f: "''zz'' \<noteq> [] \<and> CHR '':'' \<notin> set ''zz'' \<and> fromHex ''zz'' = []
      \<and> replicate KEY_LENGTH (4::byte) \<noteq> [] \<and> ''0a1b'' \<noteq> [] \<and> ''0808zz'' \<noteq> []"
    by (simp add: hexValue_def KEY_LENGTH_def)
  have 1: "pbkdf2Verify sample_pbkdf2 ''0a1b2c'' ''pw'' = Inr False"
    using pbkdf2Verify_malformed[of "''0a1b2c''" sample_pbkdf2 "''pw''"] a by blast
  have 2: "pbkdf2Verify sample_pbkdf2 '':0a1b'' ''pw'' = Inr False"
    using pbkdf2Verify_malformed[of "'':0a1b''" sample_pbkdf2 "''pw''"] b(1) by blast
  have 3: "pbkdf2Verify sample_pbkdf2 ''0a1b:'' ''pw'' = Inr False"
    using pbkdf2Verify_malformed[of "''0a1b:''" sample_pbkdf2 "''pw''"] b(2) by blast
  have 4: "pbkdf2Verify sample_pbkdf2 ''0a1b:0808zz'' ''pw'' = Inr False"
    using pbkdf2Verify_malformed[of "''0a1b:0808zz''" sample_pbkdf2 "''pw''"] b(3) c(1) d by blast
  have 5: "\<exists>b. pbkdf2Verify sample_pbkdf2 ''0a:1b:2c'' ''pw'' = Inr b"
    using pbkdf2Verify_malformed[of "''0a:1b:2c''" sample_pbkdf2 "''pw''"] e by blast
  have 6: "pbkdf2Verify sample_pbkdf2 ''0a1b:0808zz'' ''pw''
       = Inr (fromHex ''0808zz'' = replicate KEY_LENGTH 6)"
    using pbkdf2Verify_malformed[of "''0a1b:0808zz''" sample_pbkdf2 "''pw''"] b(3) c(1) f by blast
  have 7: "pbkdf2Verify sample_pbkdf2 (''zz'' @ '':'' @ toHex (replicate KEY_LENGTH 4) @ ''zz'') ''pw''
       = Inr True"
    using pbkdf2Verify_malformed[of "''x''" sample_pbkdf2 "''pw''"] c(2) f by blast
  from 1 2 3 4 5 6 7 show ?thesis by blast
qed

section \<open>Session Controller: repeated \<open>setToken\<close>\<close>

text \<open>C8, as stated, fails: from the Unauthenticated state on a route other than the
  login route, the second of two calls \<open>setToken(null)\<close> made in a row removes the
  persisted token again and pushes the login route again.\<close>

theorem setToken_twice_writes_twice:
  "token (startupRead (initial None ''/dashboard'')) = None
   \<and> isLoading (startupRead (initial None ''/dashboard'')) = False
   \<and> writes (setToken None (startupRead (initial None ''/dashboard''))) = [RemoveItem]
   \<and> writes (setToken None (setToken None (startupRead (initial None ''/dashboard''))))
       = [RemoveItem, RemoveItem]
   \<and> pushes (setToken None (startupRead (initial None ''/dashboard''))) = [''/login'']
   \<and> pushes (setToken None (setToken None (startupRead (initial None ''/dashboard''))))
       = [''/login'', ''/login'']"
  by (simp add: setToken_def startupRead_def initial_def)

text \<open>C8, amended. Calling \<open>setToken\<close> a second time with the same value leaves the
  token, the loading flag, the persisted slot and the route as the first call left them;
  the second call still performs its own persistence write, the same as the first, and
  its own navigation decision, which pushes the same redirect as the first (or none, when
  the first pushed none).\<close>

theorem setToken_repeated:
  "token (setToken t (setToken t s)) = token (setToken t s)
   \<and> isLoading (setToken t (setToken t s)) = isLoading (setToken t s)
   \<and> localStorage (setToken t (setToken t s)) = localStorage (setToken t s)
   \<and> pathname (setToken t (setToken t s)) = pathname (setToken t s)
   \<and> writes (setToken t (setToken t s))
       = writes (setToken t s) @ [last (writes (setToken t s))]
   \<and> pushes (setToken t (setToken t s))
       = pushes (setToken t s) @ drop (length (pushes s)) (pushes (setToken t s))"
  by (simp add: setToken_fields setToken_writes setToken_pushes)

section \<open>Session Controller: no redirect before the startup read\<close>

text \<open>\<open>setToken\<close> itself tests no loading flag: called in the initial state it would push
  the login route. What keeps it after the startup read is when it can be called.\<close>

lemma setToken_ignores_loading:
  "isLoading (initial (Some ''abc'') ''/dashboard'')
   \<and> pushes (setToken None (initial (Some ''abc'') ''/dashboard'')) = [''/login'']
   \<and> \<not> enabled (SetToken None) (initial (Some ''abc'') ''/dashboard'')"
  by (simp add: initial_def setToken_def)

text \<open>C9. In every state the controller reaches from its initial state in which
  \<open>isLoading\<close> is still true (the phase Uninitialized): no redirect has been pushed, and
  neither the navigation policy nor the layout's effect pushes one. In every run of the
  controller, each event that pushes a redirect comes after a startup read.\<close>

theorem no_redirect_while_loading:
  "(isLoading (run evs (initial stored route)) \<longrightarrow>
       pushes (run evs (initial stored route)) = []
       \<and> pushes (navEffect (run evs (initial stored route))) = []
       \<and> pushes (adminLayoutEffect (run evs (initial stored route))) = [])
   \<and> (admissible evs (initial stored route) \<longrightarrow>
        (\<forall>a e b. evs = a @ e # b
           \<and> pushes (step e (run a (initial stored route))) \<noteq> pushes (run a (initial stored route))
           \<longrightarrow> StartupRead \<in> set a))"
proof -
  have init: "isLoading (initial stored route)" "pushes (initial stored route) = []"
    by (simp_all add: initial_def)
  have quiet: "isLoading (run evs (initial stored route))
      \<longrightarrow> pushes (run evs (initial stored route)) = []"
    using run_keeps_quiet[of "initial stored route" evs] init by simp
  then have 1: "isLoading (run evs (initial stored route)) \<longrightarrow>
       pushes (run evs (initial stored route)) = []
       \<and> pushes (navEffect (run evs (initial stored route))) = []
       \<and> pushes (adminLayoutEffect (run evs (initial stored route))) = []"
    by (simp add: navEffect_def adminLayoutEffect_def)
  have 2: "StartupRead \<in> set a"
    if adm: "admissible evs (initial stored route)" and split: "evs = a @ e # b"
      and push: "pushes (step e (run a (initial stored route))) \<noteq> pushes (run a (initial stored route))"
    for a e b
  proof (rule ccontr)
    assume no: "StartupRead \<notin> set a"
    from adm split have a: "admissible a (initial stored route)"
      and e: "enabled e (run a (initial stored route))"
      by (simp_all add: admissible_append)
    from run_stays_loading[OF init(1) a no] have "isLoading (run a (initial stored route))" .
    from step_while_loading[OF this e] push show False by simp
  qed
  from 1 2 show ?thesis by blast
qed

theorem no_redirect_while_loading_witness:
  "isLoading (run [NavEffect, RouteChange ''/orders'', LayoutEffect, NavEffect]
      (initial (Some ''abc'') ''/login''))
   \<and> pushes (run [NavEffect, RouteChange ''/orders'', LayoutEffect, NavEffect]
      (initial (Some ''abc'') ''/login'')) = []
   \<and> admissible [NavEffect, StartupRead, NavEffect, SetToken None, LayoutEffect]
        (initial (Some ''abc'') ''/login'')
   \<and> pushes (step NavEffect (run [NavEffect, StartupRead] (initial (Some ''abc'') ''/login'')))
        \<noteq> pushes (run [NavEffect, StartupRead] (initial (Some ''abc'') ''/login''))
   \<and> StartupRead \<in> set [NavEffect, StartupRead]"
proof -
  have a: "isLoading (run [NavEffect, RouteChange ''/orders'', LayoutEffect, NavEffect]
      (initial (Some ''abc'') ''/login''))"
    by (simp add: navEffect_def adminLayoutEffect_def initial_def)
  have b: "admissible [NavEffect, StartupRead, NavEffect, SetToken None, LayoutEffect]
        (initial (Some ''abc'') ''/login'')"
    by (simp add: navEffect_def startupRead_def initial_def Let_def)
  have c: "pushes (step NavEffect (run [NavEffect, StartupRead] (initial (Some ''abc'') ''/login'')))
        \<noteq> pushes (run [NavEffect, StartupRead] (initial (Some ''abc'') ''/login''))"
    by (simp add: navEffect_def startupRead_def initial_def Let_def)
  have d: "[NavEffect, StartupRead, NavEffect, SetToken None, LayoutEffect]
      = [NavEffect, StartupRead] @ NavEffect # [SetToken None, LayoutEffect]"
    by simp
  from no_redirect_while_loading[of "[NavEffect, RouteChange ''/orders'', LayoutEffect, NavEffect]"
      "Some ''abc''" "''/login''"] a
  have 1: "pushes (run [NavEffect, RouteChange ''/orders'', LayoutEffect, NavEffect]
      (initial (Some ''abc'') ''/login'')) = []" by blast
  from no_redirect_while_loading[of "[NavEffect, StartupRead, NavEffect, SetToken None, LayoutEffect]"
      "Some ''abc''" "''/login''"] b c d
  have 2: "StartupRead \<in> set [NavEffect, StartupRead]" by blast
  from a 1 b c 2 show ?thesis by blast
qed

section \<open>Request Gate: how the credential is taken from the header\<close>

text \<open>On a path that reaches the API branch the credential is the second part of the
  header split at spaces, whatever the first part and whatever follows the second.\<close>

lemma middleware_second_part:
  assumes "\<not> startsWith path ''/_next/''" and "\<not> includesChar path CHR ''.''"
    and "\<not> List.member publicPaths path" and "isProtectedApi path"
  shows "(\<forall>word tok rest decoded.
             split CHR '' '' h = word # tok # rest \<and> tok \<noteq> []
               \<and> verify tok = Inr decoded \<and> role decoded = Str ''admin''
             \<longrightarrow> middleware verify path (Some h) = NextWithUser decoded)
     \<and> (CHR '' '' \<notin> set h
             \<longrightarrow> middleware verify path (Some h) = Json 401 ''Authentication required'')"
  by (simp add: middleware_api_branch[OF assms] split_no_sep at_def)

text \<open>C10. A header that is one word with no space, sent to a protected API path with a
  dot in a middle segment, is not answered 401: the first test of the middleware passes
  the request through before the header is read. On the same path without the dot the
  same header is answered 401.\<close>

theorem middleware_dot_path_one_word_header:
  "middleware verify ''/api/products/v1.2/items'' (Some ''Bearer'') = Next
   \<and> middleware verify ''/api/products/v12/items'' (Some ''Bearer'')
       = Json 401 ''Authentication required''"
  by (simp add: middleware_def includesChar_def startsWith_def publicPaths_def
      isProtectedApi_def protectedApiPaths_def at_def)

end
